theory Spec2Isabelle
  imports Main "HOL-Library.AList"
begin

section \<open>Values, exceptions and the outside world\<close>

text \<open>
  The service of \<^verbatim>\<open>app.py\<close> handles three kinds of data: Python strings, documents
  decoded from JSON (the workflow template and the replies of the remote engine), and
  raised exceptions. A decoded JSON document is a tree; a Python \<^verbatim>\<open>dict\<close> keeps its
  items in insertion order, so an object is an association list, looked up from the front.
  Every number that the code meets is only ever tested for truthiness or for membership,
  so numbers are kept as integers.
\<close>

datatype json =
    JNull
  | JBool bool
  | JInt int
  | JStr string
  | JArr "json list"
  | JObj "(string \<times> json) list"

text \<open>
  The exceptions that can leave a function of \<^verbatim>\<open>app.py\<close>: FastAPI's
  \<^verbatim>\<open>HTTPException(status_code, detail)\<close>, which the code raises itself; the
  exceptions of the \<^verbatim>\<open>requests\<close> library (transport failures, the
  \<^verbatim>\<open>HTTPError\<close> of \<^verbatim>\<open>raise_for_status\<close>, a body that is not JSON), each with
  the text that \<^verbatim>\<open>str(e)\<close> gives; and the built-in errors of Python's own operations.
  The last constructor is no exception of the program: it marks the one place where a run
  leaves what is modelled here (a job identifier that is not a string).
\<close>

datatype exn =
    HTTPException int string
  | RequestException string
  | ValueError string
  | AttributeError string
  | TypeError string
  | KeyError string
  | IndexError string
  | Unmodelled string

subsection \<open>Python's truth value and dictionary access\<close>

text \<open>\<^verbatim>\<open>bool(x)\<close>: \<^verbatim>\<open>None\<close>, \<^verbatim>\<open>False\<close>, zero and every empty container are false.\<close>

fun truthy :: "json \<Rightarrow> bool" where
  "truthy JNull = False"
| "truthy (JBool b) = b"
| "truthy (JInt i) = (i \<noteq> 0)"
| "truthy (JStr s) = (s \<noteq> [])"
| "truthy (JArr xs) = (xs \<noteq> [])"
| "truthy (JObj kvs) = (kvs \<noteq> [])"

text \<open>
  \<^verbatim>\<open>d.get(key, default)\<close>. Only a \<^verbatim>\<open>dict\<close> has the method; on every other value the
  attribute lookup raises \<^verbatim>\<open>AttributeError\<close>. \<^verbatim>\<open>d.get(key)\<close> is
  \<^verbatim>\<open>d.get(key, None)\<close>, and Python's \<^verbatim>\<open>None\<close> is the JSON \<^verbatim>\<open>null\<close>.
\<close>

definition no_attribute :: "string \<Rightarrow> exn" where
  "no_attribute a = AttributeError (''object has no attribute '' @ a)"

fun py_get :: "json \<Rightarrow> string \<Rightarrow> json \<Rightarrow> exn + json" where
  "py_get (JObj kvs) k dflt = Inr (case map_of kvs k of None \<Rightarrow> dflt | Some v \<Rightarrow> v)"
| "py_get _ k dflt = Inl (no_attribute ''get'')"

subsection \<open>Strings\<close>

text \<open>
  \<^verbatim>\<open>str.isspace\<close> on the code points below 256: the ASCII white space, the
  separators \<^verbatim>\<open>0x1c\<close> to \<^verbatim>\<open>0x1f\<close>, \<^verbatim>\<open>0x85\<close> and \<^verbatim>\<open>0xa0\<close>.
\<close>

definition is_space :: "char \<Rightarrow> bool" where
  "is_space c = (of_char c \<in> {9, 10, 11, 12, 13, 28, 29, 30, 31, 32, 133, 160 :: nat})"

text \<open>\<^verbatim>\<open>s.strip()\<close> removes white space at both ends, \<^verbatim>\<open>s.rstrip('/')\<close> every
  trailing slash.\<close>

definition strip :: "string \<Rightarrow> string" where
  "strip s = rev (dropWhile is_space (rev (dropWhile is_space s)))"

definition rstrip_slash :: "string \<Rightarrow> string" where
  "rstrip_slash s = rev (dropWhile (\<lambda>c. c = CHR ''/'') (rev s))"

text \<open>The decimal text of an integer, as an f-string prints it.\<close>

fun str_nat :: "nat \<Rightarrow> string" where
  "str_nat n = (if n < 10 then [''0123456789'' ! n] else str_nat (n div 10) @ [''0123456789'' ! (n mod 10)])"

declare str_nat.simps [simp del]

definition str_int :: "int \<Rightarrow> string" where
  "str_int i = (if i < 0 then CHR ''-'' # str_nat (nat (- i)) else str_nat (nat i))"

text \<open>\<^verbatim>\<open>str(e)\<close> for an exception \<^verbatim>\<open>e\<close>.\<close>

fun exn_str :: "exn \<Rightarrow> string" where
  "exn_str (HTTPException c d) = str_int c @ '': '' @ d"
| "exn_str (RequestException m) = m"
| "exn_str (ValueError m) = m"
| "exn_str (AttributeError m) = m"
| "exn_str (TypeError m) = m"
| "exn_str (KeyError m) = m"
| "exn_str (IndexError m) = m"
| "exn_str (Unmodelled m) = m"

text \<open>
  Whether \<^verbatim>\<open>int(s)\<close> accepts the text \<^verbatim>\<open>s\<close> (base 10): white space around it is
  dropped, one sign may lead, and the rest is groups of digits joined by single
  underscores. Otherwise \<^verbatim>\<open>int\<close> raises \<^verbatim>\<open>ValueError\<close>. (ASCII digits only; the
  interpreter's limit on the number of digits is not modelled.)
\<close>

definition is_digit :: "char \<Rightarrow> bool" where
  "is_digit c = (48 \<le> (of_char c :: nat) \<and> (of_char c :: nat) \<le> 57)"

fun digit_groups :: "string \<Rightarrow> bool" where
  "digit_groups [] = False"
| "digit_groups [c] = is_digit c"
| "digit_groups (c # d # cs) =
     (is_digit c \<and> (if d = CHR ''_'' then digit_groups cs else digit_groups (d # cs)))"

definition int_literal :: "string \<Rightarrow> bool" where
  "int_literal s =
     (case strip s of
        [] \<Rightarrow> False
      | c # cs \<Rightarrow> if c = CHR ''+'' \<or> c = CHR ''-'' then digit_groups cs else digit_groups (c # cs))"

section \<open>Configuration\<close>

text \<open>
  The module-level constants read from the environment (lines 6 to 12). Times are in
  milliseconds, the unit of the clock below.
\<close>

record config =
  WORKFLOW_JSON :: string
  INPUT_NODE_ID :: string
  OUTPUT_NODE_ID :: string
  POLL_INTERVAL :: int
  POLL_TIMEOUT :: int
  MAX_RETRIES :: int
  API_KEY :: string

definition default_config :: config where
  "default_config =
     \<lparr> WORKFLOW_JSON = ''JSON.json'', INPUT_NODE_ID = ''54'', OUTPUT_NODE_ID = ''455'',
       POLL_INTERVAL = 5000, POLL_TIMEOUT = 120000, MAX_RETRIES = 3,
       API_KEY = ''mysecret123'' \<rparr>"

section \<open>Endpoint selection and routes\<close>

text \<open>
  \<^verbatim>\<open>_pick_comfy_url\<close> (lines 20 to 28): the first of form field, header and query
  parameter that is neither \<^verbatim>\<open>None\<close>, empty nor all white space, with its trailing
  slashes replaced by a single one; status 400 when there is none.
\<close>

definition no_url_detail :: string where
  "no_url_detail = ''comfy_url must be provided via form field, header (x-comfy-url), or query parameter''"

fun pick_first :: "string option list \<Rightarrow> exn + string" where
  "pick_first [] = Inl (HTTPException 400 no_url_detail)"
| "pick_first (None # us) = pick_first us"
| "pick_first (Some url # us) =
     (if url \<noteq> [] \<and> strip url \<noteq> [] then Inr (rstrip_slash url @ ''/'') else pick_first us)"

definition pick_comfy_url :: "string option \<Rightarrow> string option \<Rightarrow> string option \<Rightarrow> exn + string" where
  "pick_comfy_url form_url header_url query_url = pick_first [form_url, header_url, query_url]"

text \<open>
  The specification's wording of the same choice, to compare with the loop above: a value
  is supplied when it is present and has a character that is not white space, and the
  effective endpoint is the first supplied value in the order per-call form value,
  transport header, query parameter.
\<close>

definition spec_supplied :: "string option \<Rightarrow> bool" where
  "spec_supplied u = (case u of None \<Rightarrow> False | Some s \<Rightarrow> \<exists>c\<in>set s. \<not> is_space c)"

definition spec_effective_endpoint :: "string option \<Rightarrow> string option \<Rightarrow> string option \<Rightarrow> string option" where
  "spec_effective_endpoint form_value header_value query_value =
     (if spec_supplied form_value then form_value
      else if spec_supplied header_value then header_value
      else if spec_supplied query_value then query_value
      else None)"

text \<open>The four routes, as the f-strings of lines 36, 48, 58 and 91 build them.\<close>

definition upload_url :: "string \<Rightarrow> string" where
  "upload_url base_url = rstrip_slash base_url @ ''/upload/image''"

definition prompt_url :: "string \<Rightarrow> string" where
  "prompt_url base_url = rstrip_slash base_url @ ''/prompt''"

definition history_url :: "string \<Rightarrow> string \<Rightarrow> string" where
  "history_url base_url prompt_id = rstrip_slash base_url @ ''/history/'' @ prompt_id"

definition view_url :: "string \<Rightarrow> string" where
  "view_url base_url = rstrip_slash base_url @ ''/view''"


section \<open>The remote engine, the clock and the trace\<close>

text \<open>
  What a function of \<^verbatim>\<open>app.py\<close> does besides computing is: send an HTTP request,
  read the clock and sleep. A request is what \<^verbatim>\<open>requests.post\<close> or
  \<^verbatim>\<open>requests.get\<close> is given; the remote engine and the network are a script that
  says, for the k-th request of a run, how long it takes and whether it raises or answers.
  The world is the clock (milliseconds since the epoch), the number of requests sent and
  the trace of everything done so far, oldest first.
\<close>

datatype payload =
    Multipart string string string
  | JsonBody json
  | Params "(string \<times> json) list"

datatype request = POST string payload | GET string payload

record response =
  status_code :: int
  reason :: string
  final_url :: string
  content :: string
  decoded :: "json option"

datatype outcome = Failed string | Replied response

type_synonym remote = "nat \<Rightarrow> nat \<times> outcome"

datatype event = Call request | Sleep int

record world =
  now :: int
  served :: nat
  trace :: "event list"

definition http :: "remote \<Rightarrow> request \<Rightarrow> world \<Rightarrow> (exn + response) \<times> world" where
  "http env rq w =
     (case env (served w) of
        (d, out) \<Rightarrow>
          (case out of Failed m \<Rightarrow> Inl (RequestException m) | Replied r \<Rightarrow> Inr r,
           w\<lparr>now := now w + int d, served := Suc (served w), trace := trace w @ [Call rq]\<rparr>))"

text \<open>\<^verbatim>\<open>time.sleep(d)\<close> refuses a negative length.\<close>

definition sleep :: "int \<Rightarrow> world \<Rightarrow> (exn + unit) \<times> world" where
  "sleep d w =
     (if d < 0 then (Inl (ValueError ''sleep length must be non-negative''), w)
      else (Inr (), w\<lparr>now := now w + d, trace := trace w @ [Sleep d]\<rparr>))"

text \<open>
  \<^verbatim>\<open>Response.raise_for_status\<close> raises for the statuses 400 to 599 and for no
  other; \<^verbatim>\<open>Response.json\<close> raises when the body does not decode.
\<close>

definition raise_for_status :: "response \<Rightarrow> exn + unit" where
  "raise_for_status r =
     (if 400 \<le> status_code r \<and> status_code r < 500 then
        Inl (RequestException (str_int (status_code r) @ '' Client Error: '' @ reason r @ '' for url: '' @ final_url r))
      else if 500 \<le> status_code r \<and> status_code r < 600 then
        Inl (RequestException (str_int (status_code r) @ '' Server Error: '' @ reason r @ '' for url: '' @ final_url r))
      else Inr ())"

definition response_json :: "response \<Rightarrow> exn + json" where
  "response_json r =
     (case decoded r of None \<Rightarrow> Inl (RequestException ''Expecting value'') | Some j \<Rightarrow> Inr j)"

section \<open>Asset upload\<close>

text \<open>
  \<^verbatim>\<open>_upload_to_comfy\<close> (lines 30 to 45). The stamped name is built once, before the
  loop. Each pass of \<^verbatim>\<open>for _ in range(MAX_RETRIES)\<close> posts the same request; any
  exception of the post or of \<^verbatim>\<open>raise_for_status\<close> is kept in \<^verbatim>\<open>last_err\<close> and
  followed by \<^verbatim>\<open>time.sleep(2)\<close>. After the loop comes status 502 with the text of
  the last exception (\<^verbatim>\<open>None\<close> when the loop never ran).
\<close>

definition upload_failed :: "exn option \<Rightarrow> exn" where
  "upload_failed last_err =
     HTTPException 502 (''Upload failed: '' @ (case last_err of None \<Rightarrow> ''None'' | Some e \<Rightarrow> exn_str e))"

definition attempt :: "remote \<Rightarrow> request \<Rightarrow> world \<Rightarrow> (exn + unit) \<times> world" where
  "attempt env rq w =
     (case http env rq w of
        (Inl e, w1) \<Rightarrow> (Inl e, w1)
      | (Inr r, w1) \<Rightarrow> (raise_for_status r, w1))"

fun upload_attempts :: "remote \<Rightarrow> request \<Rightarrow> string \<Rightarrow> nat \<Rightarrow> exn option \<Rightarrow> world \<Rightarrow> (exn + string) \<times> world" where
  "upload_attempts env rq stamped 0 last_err w = (Inl (upload_failed last_err), w)"
| "upload_attempts env rq stamped (Suc n) last_err w =
     (case attempt env rq w of
        (Inr _, w1) \<Rightarrow> (Inr stamped, w1)
      | (Inl e, w1) \<Rightarrow>
          (case sleep 2000 w1 of
             (Inl e', w2) \<Rightarrow> (Inl e', w2)
           | (Inr _, w2) \<Rightarrow> upload_attempts env rq stamped n (Some e) w2))"

definition stamp :: "world \<Rightarrow> string \<Rightarrow> string" where
  "stamp w original_name = str_int (now w) @ ''_'' @ original_name"

definition upload_request :: "string \<Rightarrow> string \<Rightarrow> string \<Rightarrow> request" where
  "upload_request base_url stamped img_bytes = POST (upload_url base_url) (Multipart ''image'' stamped img_bytes)"

definition upload_to_comfy :: "config \<Rightarrow> remote \<Rightarrow> string \<Rightarrow> string \<Rightarrow> string \<Rightarrow> world \<Rightarrow> (exn + string) \<times> world" where
  "upload_to_comfy cfg env img_bytes original_name base_url w =
     (let stamped = stamp w original_name
      in upload_attempts env (upload_request base_url stamped img_bytes) stamped
           (nat (MAX_RETRIES cfg)) None w)"

text \<open>
  For the statements about retries: the exception that one pass of the loop catches, given
  what the script says of the request (nothing when the pass returns), and the trace of
  \<open>n\<close> failed passes.
\<close>

definition outcome_error :: "outcome \<Rightarrow> exn option" where
  "outcome_error out =
     (case out of
        Failed m \<Rightarrow> Some (RequestException m)
      | Replied r \<Rightarrow> (case raise_for_status r of Inl e \<Rightarrow> Some e | Inr _ \<Rightarrow> None))"

definition retried :: "request \<Rightarrow> nat \<Rightarrow> event list" where
  "retried rq n = concat (replicate n [Call rq, Sleep 2000])"

section \<open>Binding the uploaded asset into the graph\<close>

text \<open>
  Lines 148 to 151 of \<^verbatim>\<open>mask\<close>. The keys of a decoded JSON object are strings, so
  \<^verbatim>\<open>graph.get(int(INPUT_NODE_ID))\<close> finds nothing; what is left of it is the
  conversion, which raises when the identifier is no integer literal. It is evaluated only
  when the first lookup gave a false value. \<^verbatim>\<open>setdefault\<close> returns the value already
  stored under \<^verbatim>\<open>inputs\<close>, whatever it is, and stores an empty mapping, as the last
  item, when there is none; the item assignment needs that value to be a mapping.
\<close>

definition node_not_found :: "string \<Rightarrow> exn" where
  "node_not_found nid = HTTPException 500 (''Input node '' @ nid @ '' not found in workflow JSON'')"

definition invalid_literal :: "string \<Rightarrow> exn" where
  "invalid_literal s = ValueError (''invalid literal for int() with base 10: '' @ [CHR 0x27] @ s @ [CHR 0x27])"

definition lookup_node :: "string \<Rightarrow> json \<Rightarrow> exn + json" where
  "lookup_node nid graph =
     (case py_get graph nid JNull of
        Inl e \<Rightarrow> Inl e
      | Inr first \<Rightarrow>
          if truthy first then Inr first
          else if int_literal nid then Inr JNull
          else Inl (invalid_literal nid))"

fun set_image :: "string \<Rightarrow> json \<Rightarrow> exn + json" where
  "set_image comfy_name (JObj attrs) =
     (case (case map_of attrs ''inputs'' of None \<Rightarrow> JObj [] | Some v \<Rightarrow> v) of
        JObj ins \<Rightarrow>
          Inr (JObj (AList.update ''inputs'' (JObj (AList.update ''image'' (JStr comfy_name) ins)) attrs))
      | _ \<Rightarrow> Inl (TypeError ''object does not support item assignment''))"
| "set_image comfy_name _ = Inl (no_attribute ''setdefault'')"

definition bind_input :: "string \<Rightarrow> string \<Rightarrow> json \<Rightarrow> exn + json" where
  "bind_input nid comfy_name graph =
     (case lookup_node nid graph of
        Inl e \<Rightarrow> Inl e
      | Inr node \<Rightarrow>
          if \<not> truthy node then Inl (node_not_found nid)
          else (case set_image comfy_name node of
                  Inl e \<Rightarrow> Inl e
                | Inr node' \<Rightarrow>
                    (case graph of
                       JObj nodes \<Rightarrow> Inr (JObj (AList.update nid node' nodes))
                     | _ \<Rightarrow> Inl (no_attribute ''get''))))"

section \<open>Job submission\<close>

text \<open>\<^verbatim>\<open>_queue_prompt\<close> (lines 47 to 53): one post, no retry.\<close>

definition queue_prompt :: "remote \<Rightarrow> json \<Rightarrow> string \<Rightarrow> world \<Rightarrow> (exn + json) \<times> world" where
  "queue_prompt env graph base_url w =
     (case http env (POST (prompt_url base_url) (JsonBody (JObj [(''prompt'', graph)]))) w of
        (Inl e, w1) \<Rightarrow> (Inl e, w1)
      | (Inr r, w1) \<Rightarrow>
          (case raise_for_status r of
             Inl e \<Rightarrow> (Inl e, w1)
           | Inr _ \<Rightarrow>
               (case response_json r of
                  Inl e \<Rightarrow> (Inl e, w1)
                | Inr body \<Rightarrow>
                    (case py_get body ''prompt_id'' JNull of
                       Inl e \<Rightarrow> (Inl e, w1)
                     | Inr pid \<Rightarrow>
                         if \<not> truthy pid
                         then (Inl (HTTPException 500 ''ComfyUI did not return prompt_id''), w1)
                         else (Inr pid, w1)))))"

section \<open>Output-node selection\<close>

text \<open>
  Lines 63 to 68 and lines 76 to 81 are the same statements: take the entry under
  \<^verbatim>\<open>OUTPUT_NODE_ID\<close>; if that value is false (absent, \<^verbatim>\<open>None\<close> or empty), walk the
  items in order and take the first whose \<^verbatim>\<open>images\<close> is true, keeping the false value
  when there is none.
\<close>

fun first_with_images :: "(string \<times> json) list \<Rightarrow> json \<Rightarrow> exn + json" where
  "first_with_images [] node = Inr node"
| "first_with_images ((k, v) # rest) node =
     (case py_get v ''images'' JNull of
        Inl e \<Rightarrow> Inl e
      | Inr imgs \<Rightarrow> if truthy imgs then Inr v else first_with_images rest node)"

definition select_node :: "string \<Rightarrow> json \<Rightarrow> exn + json" where
  "select_node out_id outputs =
     (case py_get outputs out_id JNull of
        Inl e \<Rightarrow> Inl e
      | Inr node \<Rightarrow>
          if \<not> truthy node then
            (case outputs of
               JObj kvs \<Rightarrow> first_with_images kvs node
             | _ \<Rightarrow> Inl (no_attribute ''items''))
          else Inr node)"

text \<open>\<^verbatim>\<open>node and node.get("images")\<close>, as a truth value.\<close>

definition has_images :: "json \<Rightarrow> exn + bool" where
  "has_images node =
     (if truthy node then
        (case py_get node ''images'' JNull of Inl e \<Rightarrow> Inl e | Inr imgs \<Rightarrow> Inr (truthy imgs))
      else Inr False)"

text \<open>\<^verbatim>\<open>v.get("images")\<close> for a mapping \<^verbatim>\<open>v\<close> with the given items.\<close>

definition images_of :: "(string \<times> json) list \<Rightarrow> json" where
  "images_of attrs = (case map_of attrs ''images'' of None \<Rightarrow> JNull | Some v \<Rightarrow> v)"

subsection \<open>Membership and subscripting with a string\<close>

text \<open>
  \<^verbatim>\<open>prompt_id in hist\<close> and \<^verbatim>\<open>hist[prompt_id]\<close> for a string \<^verbatim>\<open>prompt_id\<close>: key
  membership and item access on a mapping; on a list, membership compares elements and a
  string is no index; on a string, membership is the substring test.
\<close>

fun starts_with :: "string \<Rightarrow> string \<Rightarrow> bool" where
  "starts_with s [] = True"
| "starts_with [] (p # ps) = False"
| "starts_with (c # cs) (p # ps) = (c = p \<and> starts_with cs ps)"

fun occurs_in :: "string \<Rightarrow> string \<Rightarrow> bool" where
  "occurs_in p [] = (p = [])"
| "occurs_in p (c # cs) = (starts_with (c # cs) p \<or> occurs_in p cs)"

fun py_in :: "string \<Rightarrow> json \<Rightarrow> exn + bool" where
  "py_in k (JObj kvs) = Inr (k \<in> set (map fst kvs))"
| "py_in k (JArr xs) = Inr (JStr k \<in> set xs)"
| "py_in k (JStr s) = Inr (occurs_in k s)"
| "py_in k _ = Inl (TypeError ''argument is not iterable'')"

fun py_item :: "json \<Rightarrow> string \<Rightarrow> exn + json" where
  "py_item (JObj kvs) k = (case map_of kvs k of None \<Rightarrow> Inl (KeyError k) | Some v \<Rightarrow> Inr v)"
| "py_item (JArr xs) k = Inl (TypeError ''list indices must be integers or slices, not str'')"
| "py_item (JStr s) k = Inl (TypeError ''string indices must be integers'')"
| "py_item _ k = Inl (TypeError ''object is not subscriptable'')"

section \<open>Polling\<close>

text \<open>
  One pass of the body of the loop of \<^verbatim>\<open>_poll_history\<close>, after the request (lines 59
  to 70): the decoded document when the job is ready, nothing when it is not. A status
  other than 200 is not looked into.
\<close>

definition poll_check :: "config \<Rightarrow> string \<Rightarrow> response \<Rightarrow> exn + json option" where
  "poll_check cfg prompt_id r =
     (if status_code r = 200 then
        (case response_json r of
           Inl e \<Rightarrow> Inl e
         | Inr hist \<Rightarrow>
             if truthy hist then
               (case py_in prompt_id hist of
                  Inl e \<Rightarrow> Inl e
                | Inr False \<Rightarrow> Inr None
                | Inr True \<Rightarrow>
                    (case py_item hist prompt_id of
                       Inl e \<Rightarrow> Inl e
                     | Inr entry \<Rightarrow>
                         (case py_get entry ''outputs'' (JObj []) of
                            Inl e \<Rightarrow> Inl e
                          | Inr outputs \<Rightarrow>
                              (case select_node (OUTPUT_NODE_ID cfg) outputs of
                                 Inl e \<Rightarrow> Inl e
                               | Inr node \<Rightarrow>
                                   (case has_images node of
                                      Inl e \<Rightarrow> Inl e
                                    | Inr True \<Rightarrow> Inr (Some hist)
                                    | Inr False \<Rightarrow> Inr None)))))
             else Inr None)
      else Inr None)"

definition timed_out :: exn where
  "timed_out = HTTPException 504 ''Timed out waiting for ComfyUI''"

definition history_request :: "string \<Rightarrow> string \<Rightarrow> request" where
  "history_request base_url prompt_id = GET (history_url base_url prompt_id) (Params [])"

text \<open>
  The \<^verbatim>\<open>while time.time() < deadline\<close> loop (lines 57 to 72). Nothing in the code
  bounds the number of passes, so the loop is a partial function: not returning is the
  value \<^verbatim>\<open>None\<close>.
\<close>

partial_function (option) poll_loop ::
  "config \<Rightarrow> remote \<Rightarrow> string \<Rightarrow> string \<Rightarrow> int \<Rightarrow> world \<Rightarrow> ((exn + json) \<times> world) option" where
  "poll_loop cfg env prompt_id base_url deadline w =
     (if now w < deadline then
        (case http env (history_request base_url prompt_id) w of
           (Inl e, w1) \<Rightarrow> Some (Inl e, w1)
         | (Inr r, w1) \<Rightarrow>
             (case poll_check cfg prompt_id r of
                Inl e \<Rightarrow> Some (Inl e, w1)
              | Inr (Some hist) \<Rightarrow> Some (Inr hist, w1)
              | Inr None \<Rightarrow>
                  (case sleep (POLL_INTERVAL cfg) w1 of
                     (Inl e, w2) \<Rightarrow> Some (Inl e, w2)
                   | (Inr _, w2) \<Rightarrow> poll_loop cfg env prompt_id base_url deadline w2)))
      else Some (Inl timed_out, w))"

definition poll_history :: "config \<Rightarrow> remote \<Rightarrow> string \<Rightarrow> string \<Rightarrow> world \<Rightarrow> ((exn + json) \<times> world) option" where
  "poll_history cfg env prompt_id base_url w =
     (let deadline = now w + POLL_TIMEOUT cfg
      in poll_loop cfg env prompt_id base_url deadline w)"





section \<open>Fetching the artifact\<close>

text \<open>
  \<^verbatim>\<open>_fetch_first_image\<close> (lines 74 to 93). \<^verbatim>\<open>x[0]\<close> is the first element of a list
  and the first character of a string; a mapping has no key \<^verbatim>\<open>0\<close>.
\<close>

fun first_item :: "json \<Rightarrow> exn + json" where
  "first_item (JArr (x # xs)) = Inr x"
| "first_item (JArr []) = Inl (IndexError ''list index out of range'')"
| "first_item (JStr (c # cs)) = Inr (JStr [c])"
| "first_item (JStr []) = Inl (IndexError ''string index out of range'')"
| "first_item (JObj kvs) = Inl (KeyError ''0'')"
| "first_item _ = Inl (TypeError ''object is not subscriptable'')"

definition no_images :: exn where
  "no_images = HTTPException 500 ''No output images found''"

definition view_params :: "json \<Rightarrow> exn + (string \<times> json) list" where
  "view_params info =
     (case py_item info ''filename'' of
        Inl e \<Rightarrow> Inl e
      | Inr fn \<Rightarrow>
          (case py_get info ''subfolder'' (JStr []) of
             Inl e \<Rightarrow> Inl e
           | Inr sf \<Rightarrow>
               (case py_get info ''type'' (JStr ''output'') of
                  Inl e \<Rightarrow> Inl e
                | Inr ty \<Rightarrow> Inr [(''filename'', fn), (''subfolder'', sf), (''type'', ty)])))"

definition locate_info :: "config \<Rightarrow> json \<Rightarrow> string \<Rightarrow> exn + json" where
  "locate_info cfg history prompt_id =
     (case py_item history prompt_id of
        Inl e \<Rightarrow> Inl e
      | Inr entry \<Rightarrow>
          (case py_item entry ''outputs'' of
             Inl e \<Rightarrow> Inl e
           | Inr outputs \<Rightarrow>
               (case select_node (OUTPUT_NODE_ID cfg) outputs of
                  Inl e \<Rightarrow> Inl e
                | Inr node \<Rightarrow>
                    (case has_images node of
                       Inl e \<Rightarrow> Inl e
                     | Inr False \<Rightarrow> Inl no_images
                     | Inr True \<Rightarrow>
                         (case py_item node ''images'' of
                            Inl e \<Rightarrow> Inl e
                          | Inr imgs \<Rightarrow> first_item imgs)))))"

definition fetch_first_image :: "config \<Rightarrow> remote \<Rightarrow> json \<Rightarrow> string \<Rightarrow> string \<Rightarrow> world \<Rightarrow> (exn + string) \<times> world" where
  "fetch_first_image cfg env history prompt_id base_url w =
     (case locate_info cfg history prompt_id of
        Inl e \<Rightarrow> (Inl e, w)
      | Inr info \<Rightarrow>
          (case view_params info of
             Inl e \<Rightarrow> (Inl e, w)
           | Inr params \<Rightarrow>
               (case http env (GET (view_url base_url) (Params params)) w of
                  (Inl e, w1) \<Rightarrow> (Inl e, w1)
                | (Inr r, w1) \<Rightarrow>
                    (case raise_for_status r of
                       Inl e \<Rightarrow> (Inl e, w1)
                     | Inr _ \<Rightarrow> (Inr (content r), w1)))))"

section \<open>The request handler\<close>

text \<open>
  \<^verbatim>\<open>_require_key\<close> (lines 16 to 18) and \<^verbatim>\<open>mask\<close> (lines 117 to 163; named
  \<open>mask_endpoint\<close> here, \<open>mask\<close> being a constant of HOL). What the
  handler is given: the uploaded file, the API key header, and the endpoint in a form
  field, a header or the query string. Reading the workflow file (lines 142 to 146) either
  raises, with some text, or gives the decoded document; that outcome is an input of the
  model. The steps run in the order of the source: key, endpoint, upload, workflow file,
  binding, submission, polling, fetch.
\<close>

record mask_request =
  filename :: "string option"
  file_bytes :: string
  x_api_key :: "string option"
  x_comfy_url :: "string option"
  comfy_url :: "string option"
  comfy_url_query :: "string option"

record streaming_response =
  body :: string
  media_type :: string
  content_disposition :: string

definition require_key :: "config \<Rightarrow> string option \<Rightarrow> exn + unit" where
  "require_key cfg key =
     (if API_KEY cfg \<noteq> [] \<and> key \<noteq> Some (API_KEY cfg) then Inl (HTTPException 401 ''Unauthorized'')
      else Inr ())"

text \<open>\<^verbatim>\<open>file.filename or "image.png"\<close>.\<close>

definition original_name_of :: "mask_request \<Rightarrow> string" where
  "original_name_of rq =
     (case filename rq of None \<Rightarrow> ''image.png'' | Some n \<Rightarrow> if n = [] then ''image.png'' else n)"

definition workflow_unreadable :: "config \<Rightarrow> string \<Rightarrow> exn" where
  "workflow_unreadable cfg e =
     HTTPException 500 (''Failed to read workflow JSON '' @ [CHR 0x27] @ WORKFLOW_JSON cfg @ [CHR 0x27] @ '': '' @ e)"

definition attachment :: "string \<Rightarrow> string" where
  "attachment original_name = ''attachment; filename='' @ [CHR 0x22] @ original_name @ [CHR 0x22]"

text \<open>
  Steps 3 to 5 (lines 154 to 163). \<^verbatim>\<open>_queue_prompt\<close> is annotated to return a string
  and \<^verbatim>\<open>_poll_history\<close> to take one; a job identifier of another JSON type is outside
  this model and ends the run with \<open>Unmodelled\<close>.
\<close>

definition run_job :: "config \<Rightarrow> remote \<Rightarrow> json \<Rightarrow> string \<Rightarrow> string \<Rightarrow> world \<Rightarrow> ((exn + streaming_response) \<times> world) option" where
  "run_job cfg env graph effective_comfy original_name w =
     (case queue_prompt env graph effective_comfy w of
        (Inl e, w1) \<Rightarrow> Some (Inl e, w1)
      | (Inr (JStr pid), w1) \<Rightarrow>
          (case poll_history cfg env pid effective_comfy w1 of
             None \<Rightarrow> None
           | Some (Inl e, w2) \<Rightarrow> Some (Inl e, w2)
           | Some (Inr history, w2) \<Rightarrow>
               (case fetch_first_image cfg env history pid effective_comfy w2 of
                  (Inl e, w3) \<Rightarrow> Some (Inl e, w3)
                | (Inr out_bytes, w3) \<Rightarrow>
                    Some (Inr \<lparr> body = out_bytes, media_type = ''application/octet-stream'',
                               content_disposition = attachment original_name \<rparr>, w3)))
      | (Inr _, w1) \<Rightarrow> Some (Inl (Unmodelled ''prompt_id is not a string''), w1))"

definition mask_endpoint :: "config \<Rightarrow> remote \<Rightarrow> string + json \<Rightarrow> mask_request \<Rightarrow> world \<Rightarrow> ((exn + streaming_response) \<times> world) option" where
  "mask_endpoint cfg env workflow_file rq w =
     (case require_key cfg (x_api_key rq) of
        Inl e \<Rightarrow> Some (Inl e, w)
      | Inr _ \<Rightarrow>
          (case pick_comfy_url (comfy_url rq) (x_comfy_url rq) (comfy_url_query rq) of
             Inl e \<Rightarrow> Some (Inl e, w)
           | Inr effective_comfy \<Rightarrow>
               (let img_bytes = file_bytes rq; original_name = original_name_of rq
                in case upload_to_comfy cfg env img_bytes original_name effective_comfy w of
                     (Inl e, w1) \<Rightarrow> Some (Inl e, w1)
                   | (Inr comfy_name, w1) \<Rightarrow>
                       (case workflow_file of
                          Inl e \<Rightarrow> Some (Inl (workflow_unreadable cfg e), w1)
                        | Inr graph \<Rightarrow>
                            (case bind_input (INPUT_NODE_ID cfg) comfy_name graph of
                               Inl e \<Rightarrow> Some (Inl e, w1)
                             | Inr graph' \<Rightarrow> run_job cfg env graph' effective_comfy original_name w1)))))"

section \<open>Concrete runs\<close>

text \<open>
  The inputs at which the properties below are exercised: a world whose clock makes the
  stamped name of \<^verbatim>\<open>cat.png\<close> read \<^verbatim>\<open>171234_cat.png\<close>, replies of the remote
  engine, and scripts that play them in order.
\<close>

definition w0 :: world where
  "w0 = \<lparr> now = 171234, served = 0, trace = [] \<rparr>"

definition reply_ok :: "string \<Rightarrow> json option \<Rightarrow> response" where
  "reply_ok bytes doc =
     \<lparr> status_code = 200, reason = ''OK'', final_url = [], content = bytes, decoded = doc \<rparr>"

definition reply_unavailable :: response where
  "reply_unavailable =
     \<lparr> status_code = 503, reason = ''Service Unavailable'', final_url = ''http://gpu:8188/upload/image'',
       content = [], decoded = None \<rparr>"

definition cat_request :: mask_request where
  "cat_request =
     \<lparr> filename = Some ''cat.png'', file_bytes = ''JPEGDATA'',
       x_api_key = Some ''mysecret123'', x_comfy_url = Some ''http://gpu:8188'',
       comfy_url = None, comfy_url_query = None \<rparr>"

definition template_nodes :: "(string \<times> json) list" where
  "template_nodes =
     [(''54'', JObj [(''class_type'', JStr ''LoadImage''),
                     (''inputs'', JObj [(''image'', JStr ''placeholder.png'')])]),
      (''455'', JObj [(''class_type'', JStr ''SaveImage''),
                      (''inputs'', JObj [(''images'', JArr [JStr ''54'', JInt 0])])])]"

definition template :: json where
  "template = JObj template_nodes"

definition ready_doc :: json where
  "ready_doc =
     JObj [(''abc123'', JObj [(''outputs'', JObj
       [(''455'', JObj [(''images'', JArr [JObj [(''filename'', JStr ''result.png'')]])])])])]"

text \<open>
  The end-to-end run: the upload is accepted, the submission returns the job identifier
  \<^verbatim>\<open>abc123\<close>, the first poll finds nothing, the second finds the result, and the
  download returns the bytes \<^verbatim>\<open>PNGDATA\<close>.
\<close>

definition happy_env :: remote where
  "happy_env k =
     (if k = 0 then (120, Replied (reply_ok [] None))
      else if k = 1 then (80, Replied (reply_ok [] (Some (JObj [(''prompt_id'', JStr ''abc123'')]))))
      else if k = 2 then (40, Replied (reply_ok [] (Some (JObj []))))
      else if k = 3 then (40, Replied (reply_ok [] (Some ready_doc)))
      else (300, Replied (reply_ok ''PNGDATA'' None)))"


text \<open>
  Two scripts for the upload: one that times out, answers 503 and then accepts; one that
  refuses twice, answers 503 and would accept a fourth request.
\<close>

definition flaky_env :: remote where
  "flaky_env k =
     (if k = 0 then (60000, Failed ''Read timed out.'')
      else if k = 1 then (15, Replied reply_unavailable)
      else (120, Replied (reply_ok [] None)))"

definition down_env :: remote where
  "down_env k =
     (if k < 2 then (3, Failed ''Connection refused'')
      else if k = 2 then (15, Replied reply_unavailable)
      else (120, Replied (reply_ok [] None)))"

text \<open>
  Status documents: one whose output node lists two artifacts, the first with only a file
  name; one with no artifact anywhere; one whose preferred node lists no artifact while
  another node lists one. And a remote that answers every request with the bytes
  \<^verbatim>\<open>PNGDATA\<close>.
\<close>

definition two_images_doc :: json where
  "two_images_doc =
     JObj [(''abc123'', JObj [(''outputs'', JObj
       [(''455'', JObj [(''images'', JArr
           [JObj [(''filename'', JStr ''result.png'')],
            JObj [(''filename'', JStr ''preview.png''), (''subfolder'', JStr ''tmp''), (''type'', JStr ''temp'')]])])])])]"

definition no_artifacts_doc :: json where
  "no_artifacts_doc =
     JObj [(''abc123'', JObj [(''outputs'', JObj
       [(''455'', JObj [(''images'', JArr [])]), (''7'', JObj [(''text'', JStr ''done'')])])])]"

definition stuck_doc :: json where
  "stuck_doc =
     JObj [(''abc123'', JObj [(''outputs'', JObj
       [(''455'', JObj [(''images'', JArr [])]),
        (''7'', JObj [(''images'', JArr [JObj [(''filename'', JStr ''result.png'')]])])])])]"

definition serve_png :: remote where
  "serve_png k = (300, Replied (reply_ok ''PNGDATA'' None))"








section \<open>Properties\<close>

subsection \<open>Strings\<close>

lemma str_nat_digit: "n < 10 \<Longrightarrow> str_nat n = [''0123456789'' ! n]"
  by (subst str_nat.simps) simp

lemma str_nat_more: "\<not> n < 10 \<Longrightarrow> str_nat n = str_nat (n div 10) @ [''0123456789'' ! (n mod 10)]"
  by (subst str_nat.simps) simp

lemma rstrip_slash_no_trailing: "rstrip_slash s = [] \<or> last (rstrip_slash s) \<noteq> CHR ''/''"
  unfolding rstrip_slash_def
  by (metis (mono_tags, lifting) hd_dropWhile last_rev rev_is_Nil_conv)

lemma rstrip_slash_decompose: "\<exists>n. s = rstrip_slash s @ replicate n (CHR ''/'')"
proof -
  let ?P = "\<lambda>c. c = CHR ''/''"
  have all: "\<forall>y\<in>set (takeWhile ?P (rev s)). y = CHR ''/''"
    by (auto dest: set_takeWhileD)
  have "rev s = takeWhile ?P (rev s) @ dropWhile ?P (rev s)"
    by simp
  then have "s = rev (dropWhile ?P (rev s)) @ rev (takeWhile ?P (rev s))"
    by (metis rev_append rev_rev_ident)
  moreover have "rev (takeWhile ?P (rev s)) = replicate (length (takeWhile ?P (rev s))) (CHR ''/'')"
    using all by (metis length_rev replicate_length_same set_rev)
  ultimately show ?thesis
    unfolding rstrip_slash_def by metis
qed

lemma dropWhile_replicate_same: "P c \<Longrightarrow> dropWhile P (replicate n c @ xs) = dropWhile P xs"
  by (induction n) simp_all

lemma rstrip_slash_append_slashes: "rstrip_slash (s @ replicate n (CHR ''/'')) = rstrip_slash s"
  by (simp add: rstrip_slash_def dropWhile_replicate_same)

lemma rstrip_slash_idem: "rstrip_slash (rstrip_slash s) = rstrip_slash s"
  by (simp add: rstrip_slash_def)

lemma rstrip_slash_normalised: "rstrip_slash (rstrip_slash s @ ''/'') = rstrip_slash s"
  using rstrip_slash_append_slashes [of "rstrip_slash s" 1] by (simp add: rstrip_slash_idem)

subsection \<open>Routes\<close>

lemma pick_first_sound:
  "pick_first us = Inr base \<Longrightarrow> \<exists>u. Some u \<in> set us \<and> strip u \<noteq> [] \<and> base = rstrip_slash u @ ''/''"
  by (induction us rule: pick_first.induct) (auto split: if_splits)

text \<open>
  Claim C6. Whatever endpoint \<^verbatim>\<open>_pick_comfy_url\<close> returns comes from one of the three
  supplied values; that value is a stem that does not end in a slash, followed by any
  number of slashes (none, one or more). The URL of each of the four routes is the stem,
  one slash and the route: exactly one separator stands between the supplied base and the
  route suffix.
\<close>

theorem route_urls_single_separator:
  assumes "pick_comfy_url form_url header_url query_url = Inr base"
  shows "\<exists>supplied stem n.
           Some supplied \<in> {form_url, header_url, query_url}
         \<and> supplied = stem @ replicate n (CHR ''/'')
         \<and> (stem = [] \<or> last stem \<noteq> CHR ''/'')
         \<and> base = stem @ ''/''
         \<and> upload_url base = stem @ ''/upload/image''
         \<and> prompt_url base = stem @ ''/prompt''
         \<and> history_url base prompt_id = stem @ ''/history/'' @ prompt_id
         \<and> view_url base = stem @ ''/view''"
proof -
  from assms obtain u where u: "Some u \<in> {form_url, header_url, query_url}"
      and base: "base = rstrip_slash u @ ''/''"
    unfolding pick_comfy_url_def by (fastforce dest: pick_first_sound)
  obtain n where n: "u = rstrip_slash u @ replicate n (CHR ''/'')"
    using rstrip_slash_decompose by blast
  have stem: "rstrip_slash u = [] \<or> last (rstrip_slash u) \<noteq> CHR ''/''"
    by (rule rstrip_slash_no_trailing)
  have again: "rstrip_slash base = rstrip_slash u"
    unfolding base by (rule rstrip_slash_normalised)
  show ?thesis
    apply (rule exI [of _ u], rule exI [of _ "rstrip_slash u"], rule exI [of _ n])
    using u n stem base again
    by (simp add: upload_url_def prompt_url_def history_url_def view_url_def)
qed

theorem route_urls_single_separator_witness:
  "pick_comfy_url (Some ''http://gpu:8188//'') None None = Inr ''http://gpu:8188/''
   \<and> (\<exists>supplied stem n.
           Some supplied \<in> {Some ''http://gpu:8188//'', None, None}
         \<and> supplied = stem @ replicate n (CHR ''/'')
         \<and> (stem = [] \<or> last stem \<noteq> CHR ''/'')
         \<and> ''http://gpu:8188/'' = stem @ ''/''
         \<and> upload_url ''http://gpu:8188/'' = stem @ ''/upload/image''
         \<and> prompt_url ''http://gpu:8188/'' = stem @ ''/prompt''
         \<and> history_url ''http://gpu:8188/'' ''abc123'' = stem @ ''/history/'' @ ''abc123''
         \<and> view_url ''http://gpu:8188/'' = stem @ ''/view'')"
proof -
  have picked: "pick_comfy_url (Some ''http://gpu:8188//'') None None = Inr ''http://gpu:8188/''"
    by (simp add: pick_comfy_url_def strip_def rstrip_slash_def is_space_def)
  show ?thesis
    using picked route_urls_single_separator [OF picked, of "''abc123''"] by blast
qed

subsection \<open>Endpoint selection\<close>

lemma strip_empty_iff: "strip s = [] \<longleftrightarrow> (\<forall>c\<in>set s. is_space c)"
proof
  assume "strip s = []"
  then have all: "\<forall>c\<in>set (dropWhile is_space s). is_space c"
    by (simp add: strip_def dropWhile_eq_Nil_conv)
  have "dropWhile is_space s = []"
  proof (rule ccontr)
    assume ne: "dropWhile is_space s \<noteq> []"
    then have "\<not> is_space (hd (dropWhile is_space s))" by (rule hd_dropWhile)
    moreover have "hd (dropWhile is_space s) \<in> set (dropWhile is_space s)" using ne by simp
    ultimately show False using all by blast
  qed
  then show "\<forall>c\<in>set s. is_space c" by (simp add: dropWhile_eq_Nil_conv)
next
  assume "\<forall>c\<in>set s. is_space c"
  then have d: "dropWhile is_space s = []" by (simp add: dropWhile_eq_Nil_conv)
  show "strip s = []" unfolding strip_def d by simp
qed

lemma spec_supplied_Some: "spec_supplied (Some url) \<longleftrightarrow> url \<noteq> [] \<and> strip url \<noteq> []"
  using strip_empty_iff [of url] by (auto simp: spec_supplied_def)

lemma spec_supplied_None: "\<not> spec_supplied None"
  by (simp add: spec_supplied_def)

lemma pick_comfy_url_spec:
  "pick_comfy_url form_url header_url query_url =
     (case spec_effective_endpoint form_url header_url query_url of
        None \<Rightarrow> Inl (HTTPException 400 no_url_detail)
      | Some url \<Rightarrow> Inr (rstrip_slash url @ ''/''))"
  unfolding pick_comfy_url_def spec_effective_endpoint_def
  by (cases form_url; cases header_url; cases query_url)
     (simp_all add: spec_supplied_Some spec_supplied_None)

text \<open>
  Claim C9. For every form value, header value and query value, \<^verbatim>\<open>_pick_comfy_url\<close>
  returns the first of them, in that order, that is present and not all white space (with
  its trailing slashes replaced by one), and raises the status-400 configuration error
  when there is none. In that case a request that passed the key check fails with that
  error before anything else is done: the world is unchanged.
\<close>

theorem effective_endpoint_priority:
  "pick_comfy_url form_url header_url query_url =
     (case spec_effective_endpoint form_url header_url query_url of
        None \<Rightarrow> Inl (HTTPException 400 no_url_detail)
      | Some url \<Rightarrow> Inr (rstrip_slash url @ ''/''))
   \<and> (require_key cfg (x_api_key rq) = Inr ()
        \<and> spec_effective_endpoint (comfy_url rq) (x_comfy_url rq) (comfy_url_query rq) = None
      \<longrightarrow> mask_endpoint cfg env workflow_file rq w = Some (Inl (HTTPException 400 no_url_detail), w))"
  by (simp add: pick_comfy_url_spec mask_endpoint_def)

theorem effective_endpoint_priority_witness:
  "spec_effective_endpoint (Some ''   '') (Some ''http://gpu:8188'') (Some ''http://other/'')
     = Some ''http://gpu:8188''
   \<and> pick_comfy_url (Some ''   '') (Some ''http://gpu:8188'') (Some ''http://other/'')
     = Inr ''http://gpu:8188/''
   \<and> require_key default_config (x_api_key cat_request) = Inr ()
   \<and> spec_effective_endpoint None (Some [CHR 0x09]) None = None
   \<and> mask_endpoint default_config happy_env (Inr template)
        (cat_request\<lparr>x_comfy_url := Some [CHR 0x09]\<rparr>) w0
     = Some (Inl (HTTPException 400 no_url_detail), w0)"
proof -
  have first: "spec_effective_endpoint (Some ''   '') (Some ''http://gpu:8188'') (Some ''http://other/'')
     = Some ''http://gpu:8188''"
    by (simp add: spec_effective_endpoint_def spec_supplied_def is_space_def)
  have key: "require_key default_config (x_api_key (cat_request\<lparr>x_comfy_url := Some [CHR 0x09]\<rparr>)) = Inr ()"
    by (simp add: require_key_def default_config_def cat_request_def)
  have none: "spec_effective_endpoint (comfy_url (cat_request\<lparr>x_comfy_url := Some [CHR 0x09]\<rparr>))
       (x_comfy_url (cat_request\<lparr>x_comfy_url := Some [CHR 0x09]\<rparr>))
       (comfy_url_query (cat_request\<lparr>x_comfy_url := Some [CHR 0x09]\<rparr>)) = None"
    by (simp add: spec_effective_endpoint_def spec_supplied_def is_space_def cat_request_def)
  show ?thesis
    using first key none
      effective_endpoint_priority [of "Some ''   ''" "Some ''http://gpu:8188''" "Some ''http://other/''"
        default_config "cat_request\<lparr>x_comfy_url := Some [CHR 0x09]\<rparr>" happy_env "Inr template" w0]
    by (simp add: rstrip_slash_def cat_request_def)
qed

subsection \<open>Node lookup and binding\<close>







lemma stamp_w0: "stamp w0 name = ''171234_'' @ name"
  by (simp add: stamp_def w0_def str_int_def str_nat_digit str_nat_more)










subsection \<open>Upload retries\<close>

lemma attempt_outcome:
  "attempt env rq w =
     (case outcome_error (snd (env (served w))) of None \<Rightarrow> Inr () | Some e \<Rightarrow> Inl e,
      w\<lparr>now := now w + int (fst (env (served w))), served := Suc (served w),
        trace := trace w @ [Call rq]\<rparr>)"
  by (cases "env (served w)")
     (auto simp: attempt_def http_def outcome_error_def split: outcome.splits sum.splits)

lemma retried_Suc: "retried rq (Suc n) = [Call rq, Sleep 2000] @ retried rq n"
  by (simp add: retried_def)

lemma upload_attempts_fail_all:
  assumes "\<forall>k<n. outcome_error (snd (env (served w + k))) \<noteq> None"
  shows "\<exists>w'. upload_attempts env rq stamped n last_err w =
              (Inl (upload_failed (if n = 0 then last_err
                                   else outcome_error (snd (env (served w + n - 1))))), w')
            \<and> trace w' = trace w @ retried rq n
            \<and> served w' = served w + n"
  using assms
proof (induction n arbitrary: w last_err)
  case 0
  then show ?case by (simp add: retried_def)
next
  case (Suc n)
  let ?w2 = "w\<lparr>served := Suc (served w), now := now w + int (fst (env (served w))) + 2000,
               trace := trace w @ [Call rq, Sleep 2000]\<rparr>"
  from Suc.prems obtain e where e: "outcome_error (snd (env (served w))) = Some e"
    by (metis add.right_neutral not_None_eq zero_less_Suc)
  have step: "upload_attempts env rq stamped (Suc n) last_err w =
                upload_attempts env rq stamped n (Some e) ?w2"
    by (simp add: attempt_outcome e sleep_def)
  have rest: "\<forall>k<n. outcome_error (snd (env (served ?w2 + k))) \<noteq> None"
  proof (intro allI impI)
    fix k assume "k < n"
    then have "Suc k < Suc n" by simp
    with Suc.prems have "outcome_error (snd (env (served w + Suc k))) \<noteq> None"
      by blast
    then show "outcome_error (snd (env (served ?w2 + k))) \<noteq> None" by simp
  qed
  from Suc.IH [OF rest, of "Some e"] obtain w' where
      run: "upload_attempts env rq stamped n (Some e) ?w2 =
              (Inl (upload_failed (if n = 0 then Some e
                                   else outcome_error (snd (env (served ?w2 + n - 1))))), w')"
      and tr: "trace w' = trace ?w2 @ retried rq n"
      and sv: "served w' = served ?w2 + n"
    by blast
  have last: "(if n = 0 then Some e else outcome_error (snd (env (served ?w2 + n - 1))))
                = outcome_error (snd (env (served w + Suc n - 1)))"
    using e by (cases n) simp_all
  show ?case
    using step run tr sv last by (simp add: retried_Suc)
qed

lemma upload_attempts_succeed:
  assumes "m < n"
    and "\<forall>k<m. outcome_error (snd (env (served w + k))) \<noteq> None"
    and "outcome_error (snd (env (served w + m))) = None"
  shows "\<exists>w'. upload_attempts env rq stamped n last_err w = (Inr stamped, w')
            \<and> trace w' = trace w @ retried rq m @ [Call rq]"
  using assms
proof (induction m arbitrary: n w last_err)
  case 0
  then obtain n' where n: "n = Suc n'" by (cases n) auto
  from 0 show ?case
    unfolding n by (simp add: attempt_outcome retried_def)
next
  case (Suc m)
  then obtain n' where n: "n = Suc n'" and mn: "m < n'" by (cases n) auto
  let ?w2 = "w\<lparr>served := Suc (served w), now := now w + int (fst (env (served w))) + 2000,
               trace := trace w @ [Call rq, Sleep 2000]\<rparr>"
  from Suc.prems obtain e where e: "outcome_error (snd (env (served w))) = Some e"
    by (metis add.right_neutral not_None_eq zero_less_Suc)
  have step: "upload_attempts env rq stamped n last_err w =
                upload_attempts env rq stamped n' (Some e) ?w2"
    unfolding n by (simp add: attempt_outcome e sleep_def)
  have rest: "\<forall>k<m. outcome_error (snd (env (served ?w2 + k))) \<noteq> None"
  proof (intro allI impI)
    fix k assume "k < m"
    then have "Suc k < Suc m" by simp
    with Suc.prems(2) have "outcome_error (snd (env (served w + Suc k))) \<noteq> None"
      by blast
    then show "outcome_error (snd (env (served ?w2 + k))) \<noteq> None" by simp
  qed
  have ok: "outcome_error (snd (env (served ?w2 + m))) = None"
    using Suc.prems(3) by simp
  from Suc.IH [OF mn rest ok, of "Some e"] obtain w' where
      "upload_attempts env rq stamped n' (Some e) ?w2 = (Inr stamped, w')"
      "trace w' = trace ?w2 @ retried rq m @ [Call rq]"
    by blast
  then show ?case
    using step by (simp add: retried_Suc)
qed


text \<open>
  Claim C4. With retry budget \<^verbatim>\<open>R = MAX_RETRIES\<close>: if the first \<open>n\<close> attempts fail (the
  post raises, or \<^verbatim>\<open>raise_for_status\<close> raises on the reply) and the next one would not,
  the upload returns the stamped name when \<open>n < R\<close>, after \<open>n\<close> failed attempts each followed
  by a sleep of 2 seconds and one more request, and raises the status-502 upload error
  when \<open>n \<ge> R\<close>. If all \<open>R\<close> attempts fail, it raises the status-502 error whose detail is
  the text of the last exception, after exactly \<open>R\<close> requests, each followed by the same
  sleep of 2 seconds.
\<close>

theorem upload_retry_budget:
  "((\<forall>k<n. outcome_error (snd (env (served w + k))) \<noteq> None)
      \<and> outcome_error (snd (env (served w + n))) = None
    \<longrightarrow> (n < nat (MAX_RETRIES cfg) \<longrightarrow>
           (\<exists>w'. upload_to_comfy cfg env img_bytes original_name base_url w
                   = (Inr (stamp w original_name), w')
                \<and> trace w' = trace w
                     @ retried (upload_request base_url (stamp w original_name) img_bytes) n
                     @ [Call (upload_request base_url (stamp w original_name) img_bytes)]))
      \<and> (\<not> n < nat (MAX_RETRIES cfg) \<longrightarrow>
           (\<exists>detail w'. upload_to_comfy cfg env img_bytes original_name base_url w
                   = (Inl (HTTPException 502 detail), w'))))
   \<and> ((\<forall>k<nat (MAX_RETRIES cfg). outcome_error (snd (env (served w + k))) \<noteq> None)
    \<longrightarrow> (\<exists>w'. upload_to_comfy cfg env img_bytes original_name base_url w
                 = (Inl (upload_failed
                      (if nat (MAX_RETRIES cfg) = 0 then None
                       else outcome_error (snd (env (served w + nat (MAX_RETRIES cfg) - 1))))), w')
              \<and> trace w' = trace w
                   @ retried (upload_request base_url (stamp w original_name) img_bytes)
                       (nat (MAX_RETRIES cfg))))"
proof (intro conjI impI)
  assume a: "(\<forall>k<n. outcome_error (snd (env (served w + k))) \<noteq> None)
      \<and> outcome_error (snd (env (served w + n))) = None"
    and "n < nat (MAX_RETRIES cfg)"
  then show "\<exists>w'. upload_to_comfy cfg env img_bytes original_name base_url w
                   = (Inr (stamp w original_name), w')
                \<and> trace w' = trace w
                     @ retried (upload_request base_url (stamp w original_name) img_bytes) n
                     @ [Call (upload_request base_url (stamp w original_name) img_bytes)]"
    unfolding upload_to_comfy_def Let_def by (intro upload_attempts_succeed) simp_all
next
  assume a: "(\<forall>k<n. outcome_error (snd (env (served w + k))) \<noteq> None)
      \<and> outcome_error (snd (env (served w + n))) = None"
    and "\<not> n < nat (MAX_RETRIES cfg)"
  then have "\<forall>k<nat (MAX_RETRIES cfg). outcome_error (snd (env (served w + k))) \<noteq> None"
    by simp
  from upload_attempts_fail_all [OF this]
  show "\<exists>detail w'. upload_to_comfy cfg env img_bytes original_name base_url w
                   = (Inl (HTTPException 502 detail), w')"
    unfolding upload_to_comfy_def Let_def upload_failed_def by blast
next
  assume "\<forall>k<nat (MAX_RETRIES cfg). outcome_error (snd (env (served w + k))) \<noteq> None"
  from upload_attempts_fail_all [OF this]
  show "\<exists>w'. upload_to_comfy cfg env img_bytes original_name base_url w
                 = (Inl (upload_failed
                      (if nat (MAX_RETRIES cfg) = 0 then None
                       else outcome_error (snd (env (served w + nat (MAX_RETRIES cfg) - 1))))), w')
              \<and> trace w' = trace w
                   @ retried (upload_request base_url (stamp w original_name) img_bytes)
                       (nat (MAX_RETRIES cfg))"
    unfolding upload_to_comfy_def Let_def by blast
qed


lemma unavailable_error:
  "outcome_error (Replied reply_unavailable) =
     Some (RequestException ''503 Server Error: Service Unavailable for url: http://gpu:8188/upload/image'')"
  by (simp add: outcome_error_def raise_for_status_def reply_unavailable_def str_int_def
        str_nat_digit str_nat_more)

lemma ok_no_error: "outcome_error (Replied (reply_ok bytes doc)) = None"
  by (simp add: outcome_error_def raise_for_status_def reply_ok_def)

lemma failed_error: "outcome_error (Failed m) = Some (RequestException m)"
  by (simp add: outcome_error_def)

theorem upload_retry_budget_witness:
  "(\<exists>w'. upload_to_comfy default_config flaky_env ''JPEGDATA'' ''cat.png'' ''http://gpu:8188/'' w0
            = (Inr ''171234_cat.png'', w')
         \<and> trace w' = retried (upload_request ''http://gpu:8188/'' ''171234_cat.png'' ''JPEGDATA'') 2
              @ [Call (upload_request ''http://gpu:8188/'' ''171234_cat.png'' ''JPEGDATA'')])
   \<and> (\<exists>detail w'. upload_to_comfy default_config down_env ''JPEGDATA'' ''cat.png'' ''http://gpu:8188/'' w0
            = (Inl (HTTPException 502 detail), w'))
   \<and> (\<exists>w'. upload_to_comfy default_config down_env ''JPEGDATA'' ''cat.png'' ''http://gpu:8188/'' w0
            = (Inl (HTTPException 502
                 ''Upload failed: 503 Server Error: Service Unavailable for url: http://gpu:8188/upload/image''), w')
         \<and> trace w' = retried (upload_request ''http://gpu:8188/'' ''171234_cat.png'' ''JPEGDATA'') 3)"
proof -
  have budget: "nat (MAX_RETRIES default_config) = 3"
    by (simp add: default_config_def)
  have flaky: "(\<forall>k<2. outcome_error (snd (flaky_env (served w0 + k))) \<noteq> None)
      \<and> outcome_error (snd (flaky_env (served w0 + 2))) = None"
    by (simp add: w0_def flaky_env_def numeral_2_eq_2 All_less_Suc
          unavailable_error ok_no_error failed_error)
  have down_then_up: "(\<forall>k<3. outcome_error (snd (down_env (served w0 + k))) \<noteq> None)
      \<and> outcome_error (snd (down_env (served w0 + 3))) = None"
    by (simp add: w0_def down_env_def numeral_3_eq_3 All_less_Suc
          unavailable_error ok_no_error failed_error)
  have down: "\<forall>k<nat (MAX_RETRIES default_config). outcome_error (snd (down_env (served w0 + k))) \<noteq> None"
    unfolding budget using down_then_up by blast
  have last: "(if nat (MAX_RETRIES default_config) = 0 then None
               else outcome_error (snd (down_env (served w0 + nat (MAX_RETRIES default_config) - 1))))
              = Some (RequestException ''503 Server Error: Service Unavailable for url: http://gpu:8188/upload/image'')"
    unfolding budget by (simp add: w0_def down_env_def unavailable_error)
  note succeeds = upload_retry_budget [of 2 flaky_env w0 default_config
        "''JPEGDATA''" "''cat.png''" "''http://gpu:8188/''", THEN conjunct1, THEN mp, OF flaky, THEN conjunct1]
  note exhausted = upload_retry_budget [of 3 down_env w0 default_config
        "''JPEGDATA''" "''cat.png''" "''http://gpu:8188/''", THEN conjunct1, THEN mp, OF down_then_up, THEN conjunct2]
  note all_failed = upload_retry_budget [of _ down_env w0 default_config
        "''JPEGDATA''" "''cat.png''" "''http://gpu:8188/''", THEN conjunct2, THEN mp, OF down]
  have one: "\<exists>w'. upload_to_comfy default_config flaky_env ''JPEGDATA'' ''cat.png'' ''http://gpu:8188/'' w0
            = (Inr ''171234_cat.png'', w')
         \<and> trace w' = retried (upload_request ''http://gpu:8188/'' ''171234_cat.png'' ''JPEGDATA'') 2
              @ [Call (upload_request ''http://gpu:8188/'' ''171234_cat.png'' ''JPEGDATA'')]"
    using succeeds unfolding budget stamp_w0 by (simp add: w0_def)
  have two: "\<exists>detail w'. upload_to_comfy default_config down_env ''JPEGDATA'' ''cat.png'' ''http://gpu:8188/'' w0
            = (Inl (HTTPException 502 detail), w')"
    using exhausted unfolding budget by simp
  have three: "\<exists>w'. upload_to_comfy default_config down_env ''JPEGDATA'' ''cat.png'' ''http://gpu:8188/'' w0
            = (Inl (HTTPException 502
                 ''Upload failed: 503 Server Error: Service Unavailable for url: http://gpu:8188/upload/image''), w')
         \<and> trace w' = retried (upload_request ''http://gpu:8188/'' ''171234_cat.png'' ''JPEGDATA'') 3"
    using all_failed unfolding last unfolding budget stamp_w0 upload_failed_def by (simp add: w0_def)
  from one two three show ?thesis
    by (intro conjI)
qed

subsection \<open>Selection and fetch\<close>

lemma has_images_object: "has_images (JObj attrs) = Inr (attrs \<noteq> [] \<and> truthy (images_of attrs))"
  by (simp add: has_images_def images_of_def)

lemma has_images_falsy: "\<not> truthy node \<Longrightarrow> has_images node = Inr False"
  by (simp add: has_images_def)

lemma first_with_images_none:
  assumes "\<forall>(k, v)\<in>set outs. \<exists>attrs. v = JObj attrs \<and> \<not> truthy (images_of attrs)"
  shows "first_with_images outs node = Inr node"
  using assms by (induction outs) (auto simp: images_of_def)

lemma select_node_without_images:
  assumes "\<forall>(k, v)\<in>set outs. \<exists>attrs. v = JObj attrs \<and> \<not> truthy (images_of attrs)"
  shows "\<exists>node. select_node out_id (JObj outs) = Inr node \<and> has_images node = Inr False"
proof (cases "map_of outs out_id")
  case None
  then show ?thesis
    using first_with_images_none [OF assms, of JNull]
    by (simp add: select_node_def has_images_falsy)
next
  case (Some v)
  then have "(out_id, v) \<in> set outs" by (rule map_of_SomeD)
  with assms obtain attrs where v: "v = JObj attrs" and no: "\<not> truthy (images_of attrs)"
    by fastforce
  show ?thesis
  proof (cases "attrs = []")
    case True
    then show ?thesis
      using Some v first_with_images_none [OF assms, of "JObj []"]
      by (simp add: select_node_def has_images_falsy)
  next
    case False
    then show ?thesis
      using Some v no by (simp add: select_node_def has_images_object)
  qed
qed

lemma fetch_not_located:
  assumes "py_item history prompt_id = Inr entry"
    and "py_item entry ''outputs'' = Inr outputs"
    and "select_node (OUTPUT_NODE_ID cfg) outputs = Inr node"
    and "has_images node = Inr False"
  shows "fetch_first_image cfg env history prompt_id base_url w = (Inl no_images, w)"
  using assms by (simp add: fetch_first_image_def locate_info_def)

lemma locate_first:
  assumes "py_item history prompt_id = Inr entry"
    and "py_item entry ''outputs'' = Inr outputs"
    and "select_node (OUTPUT_NODE_ID cfg) outputs = Inr (JObj attrs)"
    and "map_of attrs ''images'' = Some (JArr (info # later))"
  shows "locate_info cfg history prompt_id = Inr info"
proof -
  have "attrs \<noteq> []" using assms(4) by auto
  then have "has_images (JObj attrs) = Inr True"
    using assms(4) by (simp add: has_images_object images_of_def)
  then show ?thesis
    using assms by (simp add: locate_info_def)
qed

text \<open>
  Claim C7. When the selection of \<^verbatim>\<open>_fetch_first_image\<close> gives a node whose
  \<^verbatim>\<open>images\<close> is a list that starts with a descriptor holding a \<^verbatim>\<open>filename\<close>, the
  fetcher sends exactly one request, a GET of the view route whose parameters are that
  descriptor's \<^verbatim>\<open>filename\<close>, its \<^verbatim>\<open>subfolder\<close> or the empty string when it has
  none, and its \<^verbatim>\<open>type\<close> or \<^verbatim>\<open>output\<close> when it has none; the later descriptors
  play no part, and a reply that passes \<^verbatim>\<open>raise_for_status\<close> is returned as its bytes.
  When the selection gives no node with a true \<^verbatim>\<open>images\<close>, in particular when no node of
  the outputs has one, the fetcher raises the status-500 error "No output images found"
  and sends nothing.
\<close>

theorem fetch_uses_first_descriptor:
  "(py_item history prompt_id = Inr entry \<and> py_item entry ''outputs'' = Inr outputs
      \<and> select_node (OUTPUT_NODE_ID cfg) outputs = Inr (JObj attrs)
      \<and> map_of attrs ''images'' = Some (JArr (JObj info # later))
      \<and> map_of info ''filename'' = Some fn
    \<longrightarrow> (\<exists>res w'. fetch_first_image cfg env history prompt_id base_url w = (res, w')
          \<and> trace w' = trace w @
               [Call (GET (view_url base_url)
                  (Params [(''filename'', fn),
                           (''subfolder'', case map_of info ''subfolder'' of None \<Rightarrow> JStr [] | Some v \<Rightarrow> v),
                           (''type'', case map_of info ''type'' of None \<Rightarrow> JStr ''output'' | Some v \<Rightarrow> v)]))]
          \<and> (\<forall>r. snd (env (served w)) = Replied r \<and> raise_for_status r = Inr ()
                 \<longrightarrow> res = Inr (content r))))
   \<and> (py_item history prompt_id = Inr entry \<and> py_item entry ''outputs'' = Inr outputs
      \<and> select_node (OUTPUT_NODE_ID cfg) outputs = Inr node \<and> has_images node = Inr False
    \<longrightarrow> fetch_first_image cfg env history prompt_id base_url w = (Inl no_images, w))
   \<and> (py_item history prompt_id = Inr entry \<and> py_item entry ''outputs'' = Inr (JObj outs)
      \<and> (\<forall>(k, v)\<in>set outs. \<exists>a. v = JObj a \<and> \<not> truthy (images_of a))
    \<longrightarrow> fetch_first_image cfg env history prompt_id base_url w = (Inl no_images, w))"
proof (intro conjI impI)
  assume a: "py_item history prompt_id = Inr entry \<and> py_item entry ''outputs'' = Inr outputs
      \<and> select_node (OUTPUT_NODE_ID cfg) outputs = Inr (JObj attrs)
      \<and> map_of attrs ''images'' = Some (JArr (JObj info # later))
      \<and> map_of info ''filename'' = Some fn"
  then have loc: "locate_info cfg history prompt_id = Inr (JObj info)"
    using locate_first [of history prompt_id entry outputs cfg attrs "JObj info" later] by simp
  have params: "view_params (JObj info) =
      Inr [(''filename'', fn),
           (''subfolder'', case map_of info ''subfolder'' of None \<Rightarrow> JStr [] | Some v \<Rightarrow> v),
           (''type'', case map_of info ''type'' of None \<Rightarrow> JStr ''output'' | Some v \<Rightarrow> v)]"
    using a by (simp add: view_params_def)
  show "\<exists>res w'. fetch_first_image cfg env history prompt_id base_url w = (res, w')
          \<and> trace w' = trace w @
               [Call (GET (view_url base_url)
                  (Params [(''filename'', fn),
                           (''subfolder'', case map_of info ''subfolder'' of None \<Rightarrow> JStr [] | Some v \<Rightarrow> v),
                           (''type'', case map_of info ''type'' of None \<Rightarrow> JStr ''output'' | Some v \<Rightarrow> v)]))]
          \<and> (\<forall>r. snd (env (served w)) = Replied r \<and> raise_for_status r = Inr ()
                 \<longrightarrow> res = Inr (content r))"
    by (cases "env (served w)")
       (auto simp: fetch_first_image_def loc params http_def split: outcome.splits sum.splits)
next
  assume "py_item history prompt_id = Inr entry \<and> py_item entry ''outputs'' = Inr outputs
      \<and> select_node (OUTPUT_NODE_ID cfg) outputs = Inr node \<and> has_images node = Inr False"
  then show "fetch_first_image cfg env history prompt_id base_url w = (Inl no_images, w)"
    by (intro fetch_not_located [of _ _ entry outputs _ node]) simp_all
next
  assume a: "py_item history prompt_id = Inr entry \<and> py_item entry ''outputs'' = Inr (JObj outs)
      \<and> (\<forall>(k, v)\<in>set outs. \<exists>a. v = JObj a \<and> \<not> truthy (images_of a))"
  then obtain node where "select_node (OUTPUT_NODE_ID cfg) (JObj outs) = Inr node"
      and "has_images node = Inr False"
    using select_node_without_images [of outs "OUTPUT_NODE_ID cfg"] by blast
  with a show "fetch_first_image cfg env history prompt_id base_url w = (Inl no_images, w)"
    by (intro fetch_not_located [of _ _ entry "JObj outs" _ node]) simp_all
qed


theorem fetch_uses_first_descriptor_witness:
  "(\<exists>w'. fetch_first_image default_config serve_png two_images_doc ''abc123'' ''http://gpu:8188/'' w0
            = (Inr ''PNGDATA'', w')
         \<and> trace w' = [Call (GET ''http://gpu:8188/view''
                          (Params [(''filename'', JStr ''result.png''), (''subfolder'', JStr []),
                                   (''type'', JStr ''output'')]))])
   \<and> fetch_first_image default_config serve_png stuck_doc ''abc123'' ''http://gpu:8188/'' w0
        = (Inl no_images, w0)
   \<and> fetch_first_image default_config serve_png no_artifacts_doc ''abc123'' ''http://gpu:8188/'' w0
        = (Inl no_images, w0)"
proof -
  let ?first = "[(''filename'', JStr ''result.png'')]"
  let ?second = "JObj [(''filename'', JStr ''preview.png''), (''subfolder'', JStr ''tmp''), (''type'', JStr ''temp'')]"
  let ?node = "[(''images'', JArr [JObj ?first, ?second])]"
  let ?outs = "JObj [(''455'', JObj ?node)]"
  let ?entry = "JObj [(''outputs'', ?outs)]"
  have located: "py_item two_images_doc ''abc123'' = Inr ?entry \<and> py_item ?entry ''outputs'' = Inr ?outs
      \<and> select_node (OUTPUT_NODE_ID default_config) ?outs = Inr (JObj ?node)
      \<and> map_of ?node ''images'' = Some (JArr (JObj ?first # [?second]))
      \<and> map_of ?first ''filename'' = Some (JStr ''result.png'')"
    by (simp add: two_images_doc_def default_config_def select_node_def)
  from fetch_uses_first_descriptor [of two_images_doc "''abc123''" ?entry ?outs default_config ?node
         ?first "[?second]" "JStr ''result.png''" serve_png "''http://gpu:8188/''" w0,
       THEN conjunct1, THEN mp, OF located]
  obtain res w' where
      run: "fetch_first_image default_config serve_png two_images_doc ''abc123'' ''http://gpu:8188/'' w0 = (res, w')"
    and tr: "trace w' = trace w0 @
               [Call (GET (view_url ''http://gpu:8188/'')
                  (Params [(''filename'', JStr ''result.png''),
                           (''subfolder'', case map_of ?first ''subfolder'' of None \<Rightarrow> JStr [] | Some v \<Rightarrow> v),
                           (''type'', case map_of ?first ''type'' of None \<Rightarrow> JStr ''output'' | Some v \<Rightarrow> v)]))]"
    and ok: "\<forall>r. snd (serve_png (served w0)) = Replied r \<and> raise_for_status r = Inr ()
                 \<longrightarrow> res = Inr (content r)"
    by blast
  have "snd (serve_png (served w0)) = Replied (reply_ok ''PNGDATA'' None)
          \<and> raise_for_status (reply_ok ''PNGDATA'' None) = Inr ()"
    by (simp add: serve_png_def raise_for_status_def reply_ok_def)
  with ok have "res = Inr (content (reply_ok ''PNGDATA'' None))"
    by blast
  then have res: "res = Inr ''PNGDATA''"
    by (simp add: reply_ok_def)
  have one: "\<exists>w'. fetch_first_image default_config serve_png two_images_doc ''abc123'' ''http://gpu:8188/'' w0
            = (Inr ''PNGDATA'', w')
         \<and> trace w' = [Call (GET ''http://gpu:8188/view''
                          (Params [(''filename'', JStr ''result.png''), (''subfolder'', JStr []),
                                   (''type'', JStr ''output'')]))]"
    using run tr unfolding res by (simp add: w0_def view_url_def rstrip_slash_def)
  let ?empty = "JObj [(''images'', JArr [])]"
  let ?other = "JObj [(''images'', JArr [JObj [(''filename'', JStr ''result.png'')]])]"
  let ?souts = "JObj [(''455'', ?empty), (''7'', ?other)]"
  let ?sentry = "JObj [(''outputs'', ?souts)]"
  have not_located: "py_item stuck_doc ''abc123'' = Inr ?sentry \<and> py_item ?sentry ''outputs'' = Inr ?souts
      \<and> select_node (OUTPUT_NODE_ID default_config) ?souts = Inr ?empty \<and> has_images ?empty = Inr False"
    by (simp add: stuck_doc_def default_config_def select_node_def has_images_def)
  note two = fetch_uses_first_descriptor [of stuck_doc "''abc123''" ?sentry ?souts default_config _ _ _ _
         serve_png "''http://gpu:8188/''" w0 ?empty,
       THEN conjunct2, THEN conjunct1, THEN mp, OF not_located]
  let ?nouts = "[(''455'', ?empty), (''7'', JObj [(''text'', JStr ''done'')])]"
  let ?nentry = "JObj [(''outputs'', JObj ?nouts)]"
  have no_node: "py_item no_artifacts_doc ''abc123'' = Inr ?nentry
      \<and> py_item ?nentry ''outputs'' = Inr (JObj ?nouts)
      \<and> (\<forall>(k, v)\<in>set ?nouts. \<exists>a. v = JObj a \<and> \<not> truthy (images_of a))"
    by (simp add: no_artifacts_doc_def images_of_def)
  have three: "fetch_first_image default_config serve_png no_artifacts_doc ''abc123'' ''http://gpu:8188/'' w0
        = (Inl no_images, w0)"
    by (rule mp [OF fetch_uses_first_descriptor [of no_artifacts_doc "''abc123''" ?nentry _ default_config
         _ _ _ _ serve_png "''http://gpu:8188/''" w0 _ ?nouts, THEN conjunct2, THEN conjunct2] no_node])
  from one two three show ?thesis
    by (intro conjI)
qed

subsection \<open>The polling loop\<close>


























subsection \<open>A template without the input node\<close>







subsection \<open>The response\<close>














end
